theory Spec2Isabelle
  imports Main "HOL-Library.Word"
begin

section \<open>Rooted-tree surgery of \<^verbatim>\<open>src/tree/rtree_operations.c\<close>\<close>

text \<open>
  The C file rewrites \<^verbatim>\<open>parent\<close>, \<^verbatim>\<open>left\<close> and \<^verbatim>\<open>right\<close> pointers of
  \<^verbatim>\<open>pll_rtree_t\<close> nodes in place. The embedding keeps an explicit store: a node is
  named by its address, a pointer is an optional address (\<open>None\<close> is \<^verbatim>\<open>NULL\<close>), and a
  \<^verbatim>\<open>pll_rtree_t **\<close> that points at a child field is a \<open>slot\<close>. Every function takes
  the store and returns it updated. A failed \<^verbatim>\<open>assert\<close> and a dereference of
  \<^verbatim>\<open>NULL\<close> end the run with a \<open>Fault\<close>.

  Every address holds a node: a pointer is \<^verbatim>\<open>NULL\<close> or points to a node, and
  dangling pointers are outside the model. A function that returns \<^verbatim>\<open>PLL_FAILURE\<close>
  or \<^verbatim>\<open>NULL\<close> returns that value together with the store, in which
  \<^verbatim>\<open>pll_errno\<close> holds the error, as the C interface does.
\<close>

subsection \<open>Store\<close>

type_synonym addr = nat

type_synonym ptr = "addr option"

record pll_rtree_t =
  parent :: ptr
  left :: ptr
  right :: ptr

text \<open>The address of a child field: \<^verbatim>\<open>&(a->left)\<close> or \<^verbatim>\<open>&(a->right)\<close>.\<close>

datatype slot = LeftOf addr | RightOf addr

text \<open>
  The error codes the file passes to \<^verbatim>\<open>pllmod_set_error\<close>. Their numeric values come
  from a header; the embedding only needs that they differ and are non-zero, so that
  \<^verbatim>\<open>assert(pll_errno)\<close> holds once one of them is stored.
\<close>

datatype error =
  PLLMOD_TREE_ERROR_INVALID_TREE
  | PLLMOD_TREE_ERROR_SPR_INVALID_NODE
  | PLLMOD_ERROR_INVALID_RANGE

text \<open>\<open>pll_errno = None\<close> stands for the value 0 of the error register.\<close>

record state =
  nodes :: "addr \<Rightarrow> pll_rtree_t"
  pll_errno :: "error option"

datatype fault = AssertionFailed | NullDereference | BufferOverflow | SignedOverflow

datatype status = PLL_FAILURE | PLL_SUCCESS

datatype 'a result = Ret 'a state | Fault fault

definition get_parent :: "state \<Rightarrow> addr \<Rightarrow> ptr" where
  "get_parent s a = parent (nodes s a)"

definition set_parent :: "state \<Rightarrow> addr \<Rightarrow> ptr \<Rightarrow> state" where
  "set_parent s a v = s\<lparr>nodes := (nodes s)(a := (nodes s a)\<lparr>parent := v\<rparr>)\<rparr>"

fun load :: "state \<Rightarrow> slot \<Rightarrow> ptr" where
  "load s (LeftOf a) = left (nodes s a)"
| "load s (RightOf a) = right (nodes s a)"

fun store :: "state \<Rightarrow> slot \<Rightarrow> ptr \<Rightarrow> state" where
  "store s (LeftOf a) v = s\<lparr>nodes := (nodes s)(a := (nodes s a)\<lparr>left := v\<rparr>)\<rparr>"
| "store s (RightOf a) v = s\<lparr>nodes := (nodes s)(a := (nodes s a)\<lparr>right := v\<rparr>)\<rparr>"

text \<open>
  Modelled from the spec: \<^verbatim>\<open>pllmod_set_error\<close> is declared in \<^verbatim>\<open>pllmod_common.h\<close>
  and its body is not part of the file at hand. It records the error kind in the
  process-wide last-error register (the message text is not modelled).
\<close>

definition pllmod_set_error :: "error \<Rightarrow> state \<Rightarrow> state" where
  "pllmod_set_error e s = s\<lparr>pll_errno := Some e\<rparr>"

text \<open>\<^verbatim>\<open>assert(pll_errno); return PLL_FAILURE;\<close>\<close>

definition fail_asserting_errno :: "'a \<Rightarrow> state \<Rightarrow> 'a result" where
  "fail_asserting_errno v s =
     (case pll_errno s of None \<Rightarrow> Fault AssertionFailed | Some e \<Rightarrow> Ret v s)"

subsection \<open>\<^verbatim>\<open>pllmod_rtree_get_sister\<close> (lines 26--57)\<close>

text \<open>
  The two out-parameters are optional in C (\<^verbatim>\<open>if (self) *self = ...\<close>). The function
  computes both independently of which ones are requested, so the embedding returns both
  and a caller that passed \<^verbatim>\<open>NULL\<close> for one of them ignores that component.
\<close>

definition pllmod_rtree_get_sister :: "state \<Rightarrow> ptr \<Rightarrow> (status \<times> slot option \<times> slot option) result" where
  "pllmod_rtree_get_sister s node =
     (case node of
        None \<Rightarrow> Fault NullDereference
      | Some n \<Rightarrow>
          (case get_parent s n of
             None \<Rightarrow> Ret (PLL_SUCCESS, None, None) s
           | Some p \<Rightarrow>
               if left (nodes s p) = Some n
               then Ret (PLL_SUCCESS, Some (LeftOf p), Some (RightOf p)) s
               else if right (nodes s p) = Some n
               then Ret (PLL_SUCCESS, Some (RightOf p), Some (LeftOf p)) s
               else Ret (PLL_FAILURE, None, None)
                        (pllmod_set_error PLLMOD_TREE_ERROR_INVALID_TREE s)))"

subsection \<open>\<^verbatim>\<open>pllmod_rtree_prune\<close> (lines 64--122)\<close>

text \<open>
  Lines 105--110, the grandparent case after both lookups: every right-hand side is read
  from the store as it is at that statement.
\<close>

definition prune_splice :: "state \<Rightarrow> addr \<Rightarrow> ptr \<Rightarrow> slot \<Rightarrow> slot \<Rightarrow> ptr result" where
  "prune_splice s n connected_node parent_ptr sister_ptr =
     (let s1 = store s parent_ptr (load s sister_ptr) in
      case load s1 sister_ptr of
        None \<Rightarrow> Fault NullDereference
      | Some sis \<Rightarrow>
          (case get_parent s1 n of
             None \<Rightarrow> Fault NullDereference
           | Some p \<Rightarrow>
               let s2 = set_parent s1 sis (get_parent s1 p);
                   s3 = store s2 sister_ptr None
               in (case get_parent s3 n of
                     None \<Rightarrow> Fault NullDereference
                   | Some p' \<Rightarrow> Ret connected_node (set_parent s3 p' None))))"

text \<open>Lines 89--121: connect the adjacent subtrees, detach the pruned one.\<close>

definition prune_connect :: "state \<Rightarrow> addr \<Rightarrow> slot \<Rightarrow> ptr result" where
  "prune_connect s n sister_ptr =
     (case get_parent s n of
        None \<Rightarrow> Fault NullDereference
      | Some p \<Rightarrow>
          (case get_parent s p of
             Some g \<Rightarrow>
               (case pllmod_rtree_get_sister s (Some p) of
                  Fault f \<Rightarrow> Fault f
                | Ret (rc, parent_ptr, unused) s1 \<Rightarrow>
                    if rc = PLL_FAILURE then Ret None s1
                    else (case parent_ptr of
                            None \<Rightarrow> Fault AssertionFailed
                          | Some parent_slot \<Rightarrow>
                              prune_splice s1 n (Some g) parent_slot sister_ptr))
           | None \<Rightarrow> Ret (load s sister_ptr) (store s sister_ptr None)))"

definition pllmod_rtree_prune :: "state \<Rightarrow> ptr \<Rightarrow> ptr result" where
  "pllmod_rtree_prune s node =
     (case node of
        None \<Rightarrow> Fault AssertionFailed
      | Some n \<Rightarrow>
          (case get_parent s n of
             None \<Rightarrow> Ret None (pllmod_set_error PLLMOD_TREE_ERROR_SPR_INVALID_NODE s)
           | Some p \<Rightarrow>
               (case pllmod_rtree_get_sister s node of
                  Fault f \<Rightarrow> Fault f
                | Ret (rc, self_ptr, sister_ptr) s1 \<Rightarrow>
                    if rc = PLL_FAILURE then Ret None s1
                    else (case self_ptr of
                            None \<Rightarrow> Fault AssertionFailed
                          | Some self_slot \<Rightarrow>
                              (case sister_ptr of
                                 None \<Rightarrow> Fault AssertionFailed
                               | Some sister_slot \<Rightarrow> prune_connect s1 n sister_slot)))))"

subsection \<open>\<^verbatim>\<open>pllmod_rtree_regraft\<close> (lines 124--169)\<close>

text \<open>
  Lines 140--147: \<^verbatim>\<open>edge_from_parent\<close> starts as 0 and is only looked up when
  \<^verbatim>\<open>tree->parent\<close> is set.
\<close>

definition regraft_edge_from_parent :: "state \<Rightarrow> addr \<Rightarrow> (status \<times> slot option) result" where
  "regraft_edge_from_parent s t =
     (case get_parent s t of
        None \<Rightarrow> Ret (PLL_SUCCESS, None) s
      | Some q \<Rightarrow>
          (case pllmod_rtree_get_sister s (Some t) of
             Fault f \<Rightarrow> Fault f
           | Ret (rc, self_ptr, unused) s1 \<Rightarrow> Ret (rc, self_ptr) s1))"

text \<open>
  Lines 158--168. The test \<^verbatim>\<open>if (tree->parent)\<close> reads the field after line 160 has
  stored \<^verbatim>\<open>parent_node\<close> in it.
\<close>

definition regraft_commit :: "state \<Rightarrow> addr \<Rightarrow> addr \<Rightarrow> slot option \<Rightarrow> slot option \<Rightarrow> status result" where
  "regraft_commit s parent_node t edge_from_parent edge_to_child =
     (let s1 = set_parent s parent_node (get_parent s t);
          s2 = set_parent s1 t (Some parent_node)
      in case (case get_parent s2 t of
                 None \<Rightarrow> Ret () s2
               | Some q \<Rightarrow>
                   (case edge_from_parent of
                      None \<Rightarrow> Fault NullDereference
                    | Some e \<Rightarrow> Ret () (store s2 e (Some parent_node)))) of
           Fault f \<Rightarrow> Fault f
         | Ret u s3 \<Rightarrow>
             (case edge_to_child of
                None \<Rightarrow> Fault NullDereference
              | Some e \<Rightarrow> Ret PLL_SUCCESS (store s3 e (Some t))))"

definition pllmod_rtree_regraft :: "state \<Rightarrow> ptr \<Rightarrow> ptr \<Rightarrow> status result" where
  "pllmod_rtree_regraft s node tree =
     (case node of
        None \<Rightarrow> Fault NullDereference
      | Some n \<Rightarrow>
          (case get_parent s n of
             None \<Rightarrow> Ret PLL_FAILURE (pllmod_set_error PLLMOD_TREE_ERROR_SPR_INVALID_NODE s)
           | Some parent_node \<Rightarrow>
               (case get_parent s parent_node of
                  Some g \<Rightarrow>
                    Ret PLL_FAILURE (pllmod_set_error PLLMOD_TREE_ERROR_SPR_INVALID_NODE s)
                | None \<Rightarrow>
                    (case tree of
                       None \<Rightarrow> Fault NullDereference
                     | Some t \<Rightarrow>
                         (case regraft_edge_from_parent s t of
                            Fault f \<Rightarrow> Fault f
                          | Ret (rc1, edge_from_parent) s1 \<Rightarrow>
                              if rc1 = PLL_FAILURE then fail_asserting_errno PLL_FAILURE s1
                              else (case pllmod_rtree_get_sister s1 tree of
                                      Fault f \<Rightarrow> Fault f
                                    | Ret (rc2, unused, edge_to_child) s2 \<Rightarrow>
                                        if rc2 = PLL_FAILURE
                                        then fail_asserting_errno PLL_FAILURE s2
                                        else regraft_commit s2 parent_node t
                                               edge_from_parent edge_to_child))))))"

subsection \<open>\<^verbatim>\<open>pllmod_rtree_spr\<close> (lines 181--235)\<close>

text \<open>
  Modelled from the spec: \<^verbatim>\<open>pll_tree_rollback_t\<close> and the move kinds are declared in
  \<^verbatim>\<open>pll_tree.h\<close>, which is not part of the file at hand. The record keeps the move
  kind, the rooted flag and the two node handles of an SPR move; the branch-length
  fields are never written by this file (lines 208--212 are comments) and are left out.
\<close>

datatype rearrange =
  PLLMOD_TREE_REARRANGE_SPR
  | PLLMOD_TREE_REARRANGE_NNI
  | PLLMOD_TREE_REARRANGE_TBR

record pll_tree_rollback_t =
  rearrange_type :: rearrange
  rooted :: int
  SPR_prune_edge :: ptr
  SPR_regraft_edge :: ptr

text \<open>
  Line 231: \<^verbatim>\<open>while (root && (*root)->parent) *root = (*root)->parent;\<close> for a
  non-\<^verbatim>\<open>NULL\<close> handle whose content is \<open>r\<close>. The loop need not end on a store with
  a cycle of parent links: \<open>None\<close> is the run that never returns.
\<close>

partial_function (option) reset_root :: "state \<Rightarrow> ptr \<Rightarrow> ptr result option" where
  "reset_root s r =
     (case r of
        None \<Rightarrow> Some (Fault NullDereference)
      | Some a \<Rightarrow>
          (case get_parent s a of
             None \<Rightarrow> Some (Ret r s)
           | Some q \<Rightarrow> reset_root s (Some q)))"

declare reset_root.simps [code]

text \<open>Lines 202--213: the record is written only when the caller passed one.\<close>

definition spr_save_rollback ::
  "state \<Rightarrow> ptr \<Rightarrow> slot \<Rightarrow> pll_tree_rollback_t option \<Rightarrow> pll_tree_rollback_t option" where
  "spr_save_rollback s p_node sister_ptr rollback_info =
     (case rollback_info of
        None \<Rightarrow> None
      | Some r \<Rightarrow>
          Some (r\<lparr>rearrange_type := PLLMOD_TREE_REARRANGE_SPR,
                  rooted := 1,
                  SPR_prune_edge := p_node,
                  SPR_regraft_edge := load s sister_ptr\<rparr>))"

text \<open>
  Lines 215--234: prune, regraft, reset the root. The root handle \<^verbatim>\<open>pll_rtree_t **\<close>
  is \<open>None\<close> when the caller passed \<^verbatim>\<open>NULL\<close> and \<open>Some r\<close> when it holds the pointer
  \<open>r\<close>; the handle and the rollback record live outside the nodes of the store.
\<close>

definition spr_move ::
  "state \<Rightarrow> ptr \<Rightarrow> ptr \<Rightarrow> ptr option \<Rightarrow> pll_tree_rollback_t option
     \<Rightarrow> (status \<times> ptr option \<times> pll_tree_rollback_t option) result option" where
  "spr_move s p_node r_tree root rollback_info =
     (case pllmod_rtree_prune s p_node of
        Fault f \<Rightarrow> Some (Fault f)
      | Ret connected_node s1 \<Rightarrow>
          (case connected_node of
             None \<Rightarrow> Some (fail_asserting_errno (PLL_FAILURE, root, rollback_info) s1)
           | Some c \<Rightarrow>
               (case p_node of
                  None \<Rightarrow> Some (Fault NullDereference)
                | Some n \<Rightarrow>
                    (case pllmod_rtree_regraft s1 (get_parent s1 n) r_tree of
                       Fault f \<Rightarrow> Some (Fault f)
                     | Ret rc s2 \<Rightarrow>
                         if rc = PLL_FAILURE
                         then Some (fail_asserting_errno (PLL_FAILURE, root, rollback_info) s2)
                         else (case root of
                                 None \<Rightarrow> Some (Ret (PLL_SUCCESS, None, rollback_info) s2)
                               | Some r \<Rightarrow>
                                   (case reset_root s2 r of
                                      None \<Rightarrow> None
                                    | Some (Fault f) \<Rightarrow> Some (Fault f)
                                    | Some (Ret r' s3) \<Rightarrow>
                                        Some (Ret (PLL_SUCCESS, Some r', rollback_info) s3)))))))"

definition pllmod_rtree_spr ::
  "state \<Rightarrow> ptr \<Rightarrow> ptr \<Rightarrow> ptr option \<Rightarrow> pll_tree_rollback_t option
     \<Rightarrow> (status \<times> ptr option \<times> pll_tree_rollback_t option) result option" where
  "pllmod_rtree_spr s p_node r_tree root rollback_info =
     (case pllmod_rtree_get_sister s p_node of
        Fault f \<Rightarrow> Some (Fault f)
      | Ret (rc, self_ptr, sister_ptr) s1 \<Rightarrow>
          if rc = PLL_FAILURE
          then Some (fail_asserting_errno (PLL_FAILURE, root, rollback_info) s1)
          else (case self_ptr of
                  None \<Rightarrow> Some (Fault AssertionFailed)
                | Some self_slot \<Rightarrow>
                    (case sister_ptr of
                       None \<Rightarrow> Some (Fault AssertionFailed)
                     | Some sister_slot \<Rightarrow>
                         spr_move s1 p_node r_tree root
                           (spr_save_rollback s1 p_node sister_slot rollback_info))))"

subsection \<open>\<^verbatim>\<open>pllmod_rtree_nodes_at_node_dist\<close> (lines 237--313)\<close>

text \<open>
  The caller's buffer is a list whose length is its capacity, and \<^verbatim>\<open>*n_nodes\<close> is an
  \<^verbatim>\<open>unsigned int\<close> of 32 bits. Lines 247--248 and 301--302: a write past the end
  of the buffer is a fault.
\<close>

definition emit :: "ptr list \<Rightarrow> 32 word \<Rightarrow> ptr \<Rightarrow> state \<Rightarrow> (ptr list \<times> 32 word) result" where
  "emit outbuffer n_nodes v s =
     (if unat n_nodes < length outbuffer
      then Ret (outbuffer[unat n_nodes := v], n_nodes + 1) s
      else Fault BufferOverflow)"

text \<open>The distances are \<^verbatim>\<open>int\<close>s of 32 bits; a decrement below \<^verbatim>\<open>INT_MIN\<close> is a fault.\<close>

definition int_dec :: "int \<Rightarrow> int option" where
  "int_dec d = (if d \<le> - 2147483648 then None else Some (d - 1))"

function rtree_nodes_at_node_dist_down ::
  "state \<Rightarrow> ptr \<Rightarrow> ptr list \<Rightarrow> 32 word \<Rightarrow> int \<Rightarrow> int \<Rightarrow> (ptr list \<times> 32 word) result" where
  "rtree_nodes_at_node_dist_down s root outbuffer n_nodes min_distance max_distance =
     (if max_distance < 0 then Ret (outbuffer, n_nodes) s
      else
        (case (if min_distance < 0 then emit outbuffer n_nodes root s
               else Ret (outbuffer, n_nodes) s) of
           Fault f \<Rightarrow> Fault f
         | Ret (buf1, n1) s1 \<Rightarrow>
             (case root of
                None \<Rightarrow> Fault NullDereference
              | Some r \<Rightarrow>
                  (case left (nodes s1 r) of
                     None \<Rightarrow> Ret (buf1, n1) s1
                   | Some l \<Rightarrow>
                       (case right (nodes s1 r) of
                          None \<Rightarrow> Ret (buf1, n1) s1
                        | Some rr \<Rightarrow>
                            (case int_dec min_distance of
                               None \<Rightarrow> Fault SignedOverflow
                             | Some min1 \<Rightarrow>
                                 (case rtree_nodes_at_node_dist_down s1 (Some l) buf1 n1
                                         min1 (max_distance - 1) of
                                    Fault f \<Rightarrow> Fault f
                                  | Ret (buf2, n2) s2 \<Rightarrow>
                                      rtree_nodes_at_node_dist_down s2 (Some rr) buf2 n2
                                        min1 (max_distance - 1))))))))"
  by pat_completeness auto
termination
  by (relation "measure (\<lambda>(s, root, outbuffer, n_nodes, min_distance, max_distance).
                  nat (max_distance + 1))") auto

text \<open>
  Lines 284--309, the walk towards the root. It need not end on a store with a cycle of
  parent links.
\<close>

partial_function (option) nodes_at_node_dist_up ::
  "state \<Rightarrow> ptr \<Rightarrow> ptr list \<Rightarrow> 32 word \<Rightarrow> int \<Rightarrow> int
     \<Rightarrow> (status \<times> ptr list \<times> 32 word) result option" where
  "nodes_at_node_dist_up s current_root outbuffer n_nodes min_distance max_distance =
     (case current_root of
        None \<Rightarrow> Some (Fault NullDereference)
      | Some c \<Rightarrow>
          (case get_parent s c of
             None \<Rightarrow> Some (Ret (PLL_SUCCESS, outbuffer, n_nodes) s)
           | Some p \<Rightarrow>
               (case pllmod_rtree_get_sister s current_root of
                  Fault f \<Rightarrow> Some (Fault f)
                | Ret (rc, unused, sister_ptr) s1 \<Rightarrow>
                    if rc = PLL_FAILURE
                    then Some (fail_asserting_errno (PLL_FAILURE, outbuffer, n_nodes) s1)
                    else
                      (case int_dec min_distance of
                         None \<Rightarrow> Some (Fault SignedOverflow)
                       | Some min1 \<Rightarrow>
                      (case int_dec max_distance of
                         None \<Rightarrow> Some (Fault SignedOverflow)
                       | Some max1 \<Rightarrow>
                      (case (if min1 < 0 then emit outbuffer n_nodes (get_parent s1 c) s1
                             else Ret (outbuffer, n_nodes) s1) of
                         Fault f \<Rightarrow> Some (Fault f)
                       | Ret (buf1, n1) s2 \<Rightarrow>
                      (case sister_ptr of
                         None \<Rightarrow> Some (Fault NullDereference)
                       | Some sister_slot \<Rightarrow>
                      (case int_dec min1 of
                         None \<Rightarrow> Some (Fault SignedOverflow)
                       | Some min2 \<Rightarrow>
                      (case int_dec max1 of
                         None \<Rightarrow> Some (Fault SignedOverflow)
                       | Some max2 \<Rightarrow>
                      (case rtree_nodes_at_node_dist_down s2 (load s2 sister_slot) buf1 n1
                              min2 max2 of
                         Fault f \<Rightarrow> Some (Fault f)
                       | Ret (buf2, n2) s3 \<Rightarrow>
                           nodes_at_node_dist_up s3 (get_parent s1 c) buf2 n2 min1 max1))))))))))"

declare nodes_at_node_dist_up.simps [code]

definition pllmod_rtree_nodes_at_node_dist ::
  "state \<Rightarrow> ptr \<Rightarrow> ptr list \<Rightarrow> 32 word \<Rightarrow> int \<Rightarrow> int
     \<Rightarrow> (status \<times> ptr list \<times> 32 word) result option" where
  "pllmod_rtree_nodes_at_node_dist s root outbuffer n_nodes min_distance max_distance =
     (if max_distance < min_distance
      then Some (Ret (PLL_FAILURE, outbuffer, n_nodes)
                   (pllmod_set_error PLLMOD_ERROR_INVALID_RANGE s))
      else nodes_at_node_dist_up s root outbuffer 0 min_distance max_distance)"

subsection \<open>Notions of the specification\<close>

text \<open>
  The sibling of a node is its parent's other child: the content of the child field of the
  parent that does not hold the node (read from the left field first, as the lookup does).
\<close>

definition sibling :: "state \<Rightarrow> addr \<Rightarrow> ptr" where
  "sibling s n =
     (case get_parent s n of
        None \<Rightarrow> None
      | Some p \<Rightarrow> if left (nodes s p) = Some n then right (nodes s p) else left (nodes s p))"

text \<open>
  Invariant I1 at one node: a node with a parent is held by exactly one of the parent's
  two child fields.
\<close>

definition consistent_at :: "state \<Rightarrow> addr \<Rightarrow> bool" where
  "consistent_at s n =
     (case get_parent s n of
        None \<Rightarrow> True
      | Some p \<Rightarrow> (left (nodes s p) = Some n) \<noteq> (right (nodes s p) = Some n))"

text \<open>
  A node of a well-formed tree: I1 holds at it, it has both children or none (I2), and each
  child points back to it.
\<close>

definition well_formed_at :: "state \<Rightarrow> addr \<Rightarrow> bool" where
  "well_formed_at s n =
     (consistent_at s n
      \<and> (left (nodes s n) = None) = (right (nodes s n) = None)
      \<and> (case left (nodes s n) of None \<Rightarrow> True | Some l \<Rightarrow> get_parent s l = Some n)
      \<and> (case right (nodes s n) of None \<Rightarrow> True | Some r \<Rightarrow> get_parent s r = Some n))"



subsection \<open>Concrete stores\<close>

definition rnode :: "ptr \<Rightarrow> ptr \<Rightarrow> ptr \<Rightarrow> pll_rtree_t" where
  "rnode p l r = \<lparr>parent = p, left = l, right = r\<rparr>"

text \<open>Three nodes: the root 0 with the leaves 1 (left) and 2 (right).\<close>

definition tree3 :: state where
  "tree3 =
     \<lparr>nodes = (\<lambda>a. rnode None None None)
        (0 := rnode None (Some 1) (Some 2),
         1 := rnode (Some 0) None None,
         2 := rnode (Some 0) None None),
      pll_errno = None\<rparr>"

text \<open>
  Five nodes: the root 0 with children A = 1 and B = 2, and B with children C = 3 and
  D = 4.
\<close>

definition tree5 :: state where
  "tree5 =
     \<lparr>nodes = (\<lambda>a. rnode None None None)
        (0 := rnode None (Some 1) (Some 2),
         1 := rnode (Some 0) None None,
         2 := rnode (Some 0) (Some 3) (Some 4),
         3 := rnode (Some 2) None None,
         4 := rnode (Some 2) None None),
      pll_errno = None\<rparr>"

text \<open>
  The three-node tree next to a detached fragment as a prune leaves it: the parentless
  node 5 whose only child is 6.
\<close>

definition tree3_fragment :: state where
  "tree3_fragment =
     \<lparr>nodes = (\<lambda>a. rnode None None None)
        (0 := rnode None (Some 1) (Some 2),
         1 := rnode (Some 0) None None,
         2 := rnode (Some 0) None None,
         5 := rnode None (Some 6) None,
         6 := rnode (Some 5) None None),
      pll_errno = None\<rparr>"

text \<open>A store that breaks I1: node 1 names 0 as its parent, and 0 holds 2 twice.\<close>

definition tree3_broken :: state where
  "tree3_broken =
     \<lparr>nodes = (\<lambda>a. rnode None None None)
        (0 := rnode None (Some 2) (Some 2),
         1 := rnode (Some 0) None None,
         2 := rnode (Some 0) None None),
      pll_errno = None\<rparr>"


definition rollback0 :: pll_tree_rollback_t where
  "rollback0 =
     \<lparr>rearrange_type = PLLMOD_TREE_REARRANGE_NNI, rooted = 0,
      SPR_prune_edge = None, SPR_regraft_edge = None\<rparr>"

section \<open>Properties\<close>

lemmas eval_defs =
  tree3_def tree5_def tree3_fragment_def tree3_broken_def rollback0_def rnode_def
  pllmod_rtree_get_sister_def pllmod_rtree_prune_def prune_connect_def prune_splice_def
  pllmod_rtree_regraft_def regraft_edge_from_parent_def regraft_commit_def
  pllmod_rtree_spr_def spr_move_def spr_save_rollback_def
  pllmod_set_error_def fail_asserting_errno_def get_parent_def set_parent_def
  sibling_def consistent_at_def well_formed_at_def Let_def

subsection \<open>The store\<close>

lemma get_parent_store: "get_parent (store s sl v) a = get_parent s a"
  by (cases sl) (simp_all add: get_parent_def)

lemma get_parent_set_parent:
  "get_parent (set_parent s a v) b = (if b = a then v else get_parent s b)"
  by (simp add: get_parent_def set_parent_def)

lemma store_same_nodes: "load s sl = v \<Longrightarrow> nodes (store s sl v) = nodes s"
  by (cases sl) (auto simp: fun_eq_iff)


lemma fail_asserting_errno_Ret:
  "fail_asserting_errno v s = Ret v' s' \<Longrightarrow> v' = v \<and> s' = s"
  by (auto simp: fail_asserting_errno_def split: option.splits)

subsection \<open>The lookup\<close>

text \<open>The three ways the lookup returns: the error, the root, a node under its parent.\<close>

lemma get_sister_cases:
  "pllmod_rtree_get_sister s (Some n) = Ret (rc, a, b) s1 \<Longrightarrow>
     (rc = PLL_FAILURE \<and> a = None \<and> b = None
        \<and> s1 = pllmod_set_error PLLMOD_TREE_ERROR_INVALID_TREE s \<and> get_parent s n \<noteq> None)
   \<or> (rc = PLL_SUCCESS \<and> s1 = s \<and> get_parent s n = None \<and> a = None \<and> b = None)
   \<or> (rc = PLL_SUCCESS \<and> s1 = s
        \<and> (\<exists>p x y. get_parent s n = Some p \<and> a = Some x \<and> b = Some y
              \<and> load s x = Some n \<and> load s y = sibling s n))"
  by (auto simp: pllmod_rtree_get_sister_def sibling_def split: option.splits if_splits)


text \<open>
  Claim C7. For a node \<open>n\<close> with parent \<open>p\<close> at which the tree is consistent (I1), the
  lookup succeeds, leaves the store as it is, and returns a self slot and a sister slot:
  the two child fields of \<open>p\<close>, the self slot holding \<open>n\<close> and the sister slot holding
  the sibling of \<open>n\<close>. For a node without a parent the lookup succeeds with both slots
  absent.
\<close>

theorem get_sister_slots:
  "(get_parent s n = Some p \<and> consistent_at s n \<longrightarrow>
      (\<exists>self_slot sister_slot.
         pllmod_rtree_get_sister s (Some n) =
           Ret (PLL_SUCCESS, Some self_slot, Some sister_slot) s
         \<and> load s self_slot = Some n
         \<and> load s sister_slot = sibling s n
         \<and> self_slot \<noteq> sister_slot
         \<and> {self_slot, sister_slot} = {LeftOf p, RightOf p}))
   \<and> (get_parent s n = None \<longrightarrow>
         pllmod_rtree_get_sister s (Some n) = Ret (PLL_SUCCESS, None, None) s)"
  by (auto simp: pllmod_rtree_get_sister_def sibling_def consistent_at_def
      split: option.splits if_splits)

theorem get_sister_slots_witness:
  "get_parent tree5 3 = Some 2 \<and> consistent_at tree5 3
   \<and> (\<exists>self_slot sister_slot.
         pllmod_rtree_get_sister tree5 (Some 3) =
           Ret (PLL_SUCCESS, Some self_slot, Some sister_slot) tree5
         \<and> load tree5 self_slot = Some 3
         \<and> load tree5 sister_slot = Some 4
         \<and> self_slot \<noteq> sister_slot
         \<and> {self_slot, sister_slot} = {LeftOf 2, RightOf 2})
   \<and> get_parent tree5 0 = None
   \<and> pllmod_rtree_get_sister tree5 (Some 0) = Ret (PLL_SUCCESS, None, None) tree5"
proof -
  have h: "get_parent tree5 3 = Some 2 \<and> consistent_at tree5 3"
    by (simp add: tree5_def rnode_def get_parent_def consistent_at_def)
  have r: "get_parent tree5 0 = None"
    by (simp add: tree5_def rnode_def get_parent_def)
  have sib: "sibling tree5 3 = Some 4"
    by (simp add: tree5_def rnode_def get_parent_def sibling_def)
  from get_sister_slots [of tree5 3 2] get_sister_slots [of tree5 0] h r sib
  show ?thesis by simp
qed

subsection \<open>Prune\<close>

lemma prune_splice_returns: "prune_splice s n (Some g) a b = Ret r s' \<Longrightarrow> r = Some g"
  by (auto simp: prune_splice_def Let_def split: option.splits)

text \<open>Whenever prune returns \<^verbatim>\<open>NULL\<close>, no field of any node has changed.\<close>

lemma prune_null_nodes:
  "pllmod_rtree_prune s node = Ret None s' \<Longrightarrow> nodes s' = nodes s"
proof (cases node)
  case None
  assume "pllmod_rtree_prune s node = Ret None s'"
  with None show ?thesis by (simp add: pllmod_rtree_prune_def)
next
  case (Some n)
  assume "pllmod_rtree_prune s node = Ret None s'"
  with Some show ?thesis
    by (auto simp: pllmod_rtree_prune_def prune_connect_def pllmod_set_error_def
          store_same_nodes
        split: option.splits if_splits result.splits prod.splits
        dest!: get_sister_cases prune_splice_returns)
qed

text \<open>
  After a successful prune the pruned node has no parent at all, or its parent has none:
  the last write of either branch leaves \<^verbatim>\<open>node->parent->parent\<close> empty.
\<close>

lemma prune_splice_detaches:
  "prune_splice s n c a b = Ret r s' \<Longrightarrow>
     get_parent s' n = None \<or> (\<exists>p. get_parent s' n = Some p \<and> get_parent s' p = None)"
  by (auto simp: prune_splice_def Let_def get_parent_store get_parent_set_parent
      split: option.splits if_splits)

lemma prune_connect_detaches:
  "prune_connect s n b = Ret (Some c) s' \<Longrightarrow>
     get_parent s' n = None \<or> (\<exists>p. get_parent s' n = Some p \<and> get_parent s' p = None)"
  by (auto simp: prune_connect_def get_parent_store
      split: option.splits if_splits result.splits prod.splits
      dest!: get_sister_cases prune_splice_detaches)

lemma prune_detaches:
  "pllmod_rtree_prune s (Some n) = Ret (Some c) s' \<Longrightarrow>
     get_parent s' n = None \<or> (\<exists>p. get_parent s' n = Some p \<and> get_parent s' p = None)"
  by (auto simp: pllmod_rtree_prune_def
      split: option.splits if_splits result.splits prod.splits
      dest!: get_sister_cases prune_connect_detaches)








text \<open>
  When the parent of the pruned node is the root, line 115 returns the sibling and line
  118 clears the parent's field, and no statement of that branch writes the sibling's
  \<^verbatim>\<open>parent\<close> (the other branch does, at line 106): the returned node still points to
  the detached parent.
\<close>

lemma prune_reroot_keeps_parent_link:
  assumes "get_parent s n = Some p" and "get_parent s p = None"
      and "consistent_at s n" and "sibling s n = Some sis" and "get_parent s sis = Some p"
  shows "\<exists>s'. pllmod_rtree_prune s (Some n) = Ret (Some sis) s' \<and> get_parent s' sis = Some p"
  using assms
  by (auto simp: pllmod_rtree_prune_def prune_connect_def pllmod_rtree_get_sister_def
        consistent_at_def sibling_def get_parent_def
      split: option.splits if_splits)

text \<open>
  Claim C3, at the three-node tree (every node well formed) with the left leaf 1 pruned.
  The parent 0 of the pruned node has no parent, so prune returns the former sibling 2.
  Afterwards node 0 is parentless with the single child 1, as the claim says, but the
  returned node 2 still has \<open>parent = Some 0\<close>: a reference into the pruned fragment,
  which the claim excludes.
\<close>

theorem prune_reroot_returned_node_refers_to_fragment:
  "list_all (well_formed_at tree3) [0, 1, 2]
   \<and> (\<exists>s'. pllmod_rtree_prune tree3 (Some 1) = Ret (Some 2) s'
          \<and> map (nodes s') [0, 1, 2] =
              [rnode None (Some 1) None, rnode (Some 0) None None, rnode (Some 0) None None]
          \<and> get_parent s' 1 = Some 0
          \<and> get_parent s' 2 = Some 0)"
  by (simp add: eval_defs)

subsection \<open>Regraft\<close>

text \<open>A failed regraft leaves the fields of all nodes as they were.\<close>

lemma regraft_failure_nodes:
  "pllmod_rtree_regraft s node tree = Ret PLL_FAILURE s' \<Longrightarrow> nodes s' = nodes s"
  by (auto simp: pllmod_rtree_regraft_def regraft_edge_from_parent_def regraft_commit_def
        Let_def fail_asserting_errno_def pllmod_set_error_def
      split: option.splits if_splits result.splits prod.splits
      dest!: get_sister_cases)

text \<open>Line 132 rejects a node that has no parent: regraft of such a node never succeeds.\<close>

lemma regraft_of_detached_parent:
  "get_parent s p = None \<Longrightarrow> pllmod_rtree_regraft s (Some p) tree \<noteq> Ret PLL_SUCCESS s'"
  by (simp add: pllmod_rtree_regraft_def pllmod_set_error_def)

text \<open>
  A target without a parent: line 140 skips the lookup and leaves \<^verbatim>\<open>edge_from_parent\<close>
  at 0, line 160 stores \<^verbatim>\<open>parent_node\<close> in \<^verbatim>\<open>tree->parent\<close>, and the test of
  line 162 then reads that field as set, so line 164 writes through the null pointer.
\<close>

lemma regraft_onto_root_faults:
  "get_parent s n = Some p \<Longrightarrow> get_parent s p = None \<Longrightarrow> get_parent s t = None \<Longrightarrow>
     pllmod_rtree_regraft s (Some n) (Some t) = Fault NullDereference"
  by (simp add: pllmod_rtree_regraft_def regraft_edge_from_parent_def regraft_commit_def
      pllmod_rtree_get_sister_def Let_def get_parent_set_parent)

text \<open>
  Claim C2, at the three-node tree (every node well formed) and the detached fragment 5
  with the single child 6, regrafting node 6 onto the edge above leaf 1. The call succeeds.
  Line 149 has looked up the sister slot of the target (the right field of the target's
  old parent 0), and line 166 stores the target there: node 0 ends with the children 5 and
  1, node 2 is no longer held by any field, and the detached parent 5 keeps the children
  6 and \<^verbatim>\<open>NULL\<close>. The target 1 and the regrafted node 6 are not the two children of
  node 5, and I1 fails at nodes 1 and 2.
\<close>

theorem regraft_overwrites_sibling_of_target:
  "list_all (well_formed_at tree3_fragment) [0, 1, 2]
   \<and> (\<exists>s'. pllmod_rtree_regraft tree3_fragment (Some 6) (Some 1) = Ret PLL_SUCCESS s'
          \<and> map (nodes s') [0, 1, 2, 5, 6] =
              [rnode None (Some 5) (Some 1), rnode (Some 5) None None,
               rnode (Some 0) None None, rnode (Some 0) (Some 6) None,
               rnode (Some 5) None None]
          \<and> \<not> consistent_at s' 1
          \<and> \<not> consistent_at s' 2)"
  by (simp add: eval_defs)

text \<open>
  Claim C6, at the same store with the root 0 of the three-node tree as the target: the
  fragment child 6 has the detached parent 5, the target has no parent, and the call does
  not return: it ends in the write through the null \<^verbatim>\<open>edge_from_parent\<close> of line 164.
\<close>

theorem regraft_onto_root_null_dereference:
  "list_all (well_formed_at tree3_fragment) [0, 1, 2]
   \<and> get_parent tree3_fragment 6 = Some 5
   \<and> get_parent tree3_fragment 5 = None
   \<and> get_parent tree3_fragment 0 = None
   \<and> pllmod_rtree_regraft tree3_fragment (Some 6) (Some 0) = Fault NullDereference"
  by (simp add: eval_defs)

text \<open>
  Claim C5, at the five-node tree (every node well formed): prune C = 3, whose sibling is
  D = 4 and whose grandparent is the root 0, then regraft 3 onto the edge above 4, the
  edge it was pruned from. Both calls succeed, and the store differs from the original:
  the root's left field holds 4 instead of A = 1, and node 2 has lost its right child.
\<close>

theorem prune_regraft_round_trip_differs:
  "list_all (well_formed_at tree5) [0, 1, 2, 3, 4]
   \<and> (\<exists>s1 s2. pllmod_rtree_prune tree5 (Some 3) = Ret (Some 0) s1
          \<and> pllmod_rtree_regraft s1 (Some 3) (Some 4) = Ret PLL_SUCCESS s2
          \<and> map (nodes s2) [0, 1, 2, 3, 4] =
              [rnode None (Some 4) (Some 2), rnode (Some 0) None None,
               rnode (Some 0) (Some 3) None, rnode (Some 2) None None,
               rnode (Some 2) None None]
          \<and> map (nodes tree5) [0, 1, 2, 3, 4] =
              [rnode None (Some 1) (Some 2), rnode (Some 0) None None,
               rnode (Some 0) (Some 3) (Some 4), rnode (Some 2) None None,
               rnode (Some 2) None None])"
  by (simp add: eval_defs)

subsection \<open>SPR\<close>

text \<open>The part of the move after the record is saved returns the record it was given.\<close>

lemma spr_move_rollback:
  "spr_move s p_node r_tree root rb = Some (Ret (rc, root', rb') s') \<Longrightarrow> rb' = rb"
  by (auto simp: spr_move_def split: option.splits if_splits result.splits prod.splits
      dest!: fail_asserting_errno_Ret)

lemma spr_move_failure:
  "spr_move s p_node r_tree root rb = Some (Ret (PLL_FAILURE, root', rb') s') \<Longrightarrow>
     rb' = rb \<and> root' = root
     \<and> (nodes s' = nodes s
         \<or> (\<exists>c s2. pllmod_rtree_prune s p_node = Ret (Some c) s2 \<and> nodes s' = nodes s2))"
  by (auto simp: spr_move_def split: option.splits if_splits result.splits prod.splits
      dest!: fail_asserting_errno_Ret prune_null_nodes regraft_failure_nodes)

text \<open>
  Line 222 passes \<^verbatim>\<open>p_node->parent\<close> to regraft. After a successful prune that node has
  no parent, and regraft rejects a node without a parent at line 132: no call of the move
  returns success, whatever the store and the arguments.
\<close>

lemma spr_move_never_succeeds:
  "spr_move s p_node r_tree root rb \<noteq> Some (Ret (PLL_SUCCESS, root', rb') s')"
proof
  assume a: "spr_move s p_node r_tree root rb = Some (Ret (PLL_SUCCESS, root', rb') s')"
  then obtain n c s1 s2 where pr: "pllmod_rtree_prune s (Some n) = Ret (Some c) s1"
    and rg: "pllmod_rtree_regraft s1 (get_parent s1 n) r_tree = Ret PLL_SUCCESS s2"
    by (auto simp: spr_move_def split: option.splits if_splits result.splits prod.splits
        dest!: fail_asserting_errno_Ret) (metis status.exhaust)+
  from prune_detaches [OF pr] show False
  proof
    assume "get_parent s1 n = None"
    with rg show False by (simp add: pllmod_rtree_regraft_def)
  next
    assume "\<exists>p. get_parent s1 n = Some p \<and> get_parent s1 p = None"
    with rg show False by (auto simp: regraft_of_detached_parent)
  qed
qed

lemma spr_never_succeeds:
  "pllmod_rtree_spr s p_node r_tree root rb \<noteq> Some (Ret (PLL_SUCCESS, root', rb') s')"
  by (auto simp: pllmod_rtree_spr_def spr_move_never_succeeds
      split: option.splits if_splits result.splits prod.splits
      dest!: fail_asserting_errno_Ret)

text \<open>For a node under a parent, a successful first lookup leads to the saved record.\<close>

lemma spr_unfold:
  assumes "pllmod_rtree_get_sister s (Some n) = Ret (PLL_SUCCESS, self_ptr, sister_ptr) s1"
      and "get_parent s n = Some p"
  shows "pllmod_rtree_spr s (Some n) r_tree root (Some rb) =
           spr_move s (Some n) r_tree root
             (Some (rb\<lparr>rearrange_type := PLLMOD_TREE_REARRANGE_SPR, rooted := 1,
                       SPR_prune_edge := Some n, SPR_regraft_edge := sibling s n\<rparr>))"
  using assms
  by (auto simp: pllmod_rtree_spr_def spr_save_rollback_def dest!: get_sister_cases)

text \<open>
  Claim C1, at the five-node tree (every node well formed): prune C = 3, regraft onto
  A = 1, the root handle holding 0, a rollback record provided. The call returns
  \<^verbatim>\<open>PLL_FAILURE\<close> with the error \<^verbatim>\<open>PLLMOD_TREE_ERROR_SPR_INVALID_NODE\<close> raised by
  regraft, and leaves the tree pruned: the root has the children 1 and 4, and node 2 is a
  parentless node with the single child 3. No node with the children A and C exists.
\<close>

theorem spr_five_node_tree_fails:
  "list_all (well_formed_at tree5) [0, 1, 2, 3, 4]
   \<and> (\<exists>s'. pllmod_rtree_spr tree5 (Some 3) (Some 1) (Some (Some 0)) (Some rollback0) =
             Some (Ret (PLL_FAILURE, Some (Some 0),
                     Some \<lparr>rearrange_type = PLLMOD_TREE_REARRANGE_SPR, rooted = 1,
                           SPR_prune_edge = Some 3, SPR_regraft_edge = Some 4\<rparr>) s')
          \<and> pll_errno s' = Some PLLMOD_TREE_ERROR_SPR_INVALID_NODE
          \<and> map (nodes s') [0, 1, 2, 3, 4] =
              [rnode None (Some 1) (Some 4), rnode (Some 0) None None,
               rnode None (Some 3) None, rnode (Some 2) None None,
               rnode (Some 0) None None])"
  by (simp add: eval_defs)

text \<open>
  Claim C9 as stated fails when the pruned node is the root: the first lookup succeeds
  with both slots absent, and the assertion of line 198 ends the run before any record
  is written. Here at the three-node tree with the root 0 as the node to prune.
\<close>

theorem spr_root_prune_node_aborts:
  "pllmod_rtree_get_sister tree3 (Some 0) = Ret (PLL_SUCCESS, None, None) tree3
   \<and> pllmod_rtree_spr tree3 (Some 0) (Some 1) (Some (Some 0)) (Some rollback0) =
       Some (Fault AssertionFailed)"
  by (simp add: eval_defs)

text \<open>
  Claim C9, amended: for every call of spr in which a rollback record is provided, the
  node to prune has a parent and the first lookup succeeds, the record is filled while the
  store is still the one the call received: the call equals the rest of the move (prune,
  regraft, root reset) started in the unchanged store with the record whose kind is SPR,
  whose rooted flag is 1, whose prune edge is the node to prune and whose regraft edge is
  that node's sibling in the store before the move. Whenever the call returns, the record
  it hands back is that one.
\<close>

theorem spr_rollback_recorded:
  assumes "get_parent s n = Some p"
      and "pllmod_rtree_get_sister s (Some n) = Ret (PLL_SUCCESS, self_ptr, sister_ptr) s1"
  shows "pllmod_rtree_spr s (Some n) r_tree root (Some rb) =
           spr_move s (Some n) r_tree root
             (Some (rb\<lparr>rearrange_type := PLLMOD_TREE_REARRANGE_SPR, rooted := 1,
                       SPR_prune_edge := Some n, SPR_regraft_edge := sibling s n\<rparr>))
         \<and> (\<forall>rc root' rb' s'.
               pllmod_rtree_spr s (Some n) r_tree root (Some rb) =
                 Some (Ret (rc, root', rb') s') \<longrightarrow>
               rb' = Some (rb\<lparr>rearrange_type := PLLMOD_TREE_REARRANGE_SPR, rooted := 1,
                       SPR_prune_edge := Some n, SPR_regraft_edge := sibling s n\<rparr>))"
proof -
  have eq: "pllmod_rtree_spr s (Some n) r_tree root (Some rb) =
              spr_move s (Some n) r_tree root
                (Some (rb\<lparr>rearrange_type := PLLMOD_TREE_REARRANGE_SPR, rooted := 1,
                          SPR_prune_edge := Some n, SPR_regraft_edge := sibling s n\<rparr>))"
    by (rule spr_unfold [OF assms(2) assms(1)])
  show ?thesis
  proof (intro conjI allI impI)
    show "pllmod_rtree_spr s (Some n) r_tree root (Some rb) =
            spr_move s (Some n) r_tree root
              (Some (rb\<lparr>rearrange_type := PLLMOD_TREE_REARRANGE_SPR, rooted := 1,
                        SPR_prune_edge := Some n, SPR_regraft_edge := sibling s n\<rparr>))"
      by (rule eq)
  next
    fix rc root' rb' s'
    assume "pllmod_rtree_spr s (Some n) r_tree root (Some rb) = Some (Ret (rc, root', rb') s')"
    with eq have "spr_move s (Some n) r_tree root
              (Some (rb\<lparr>rearrange_type := PLLMOD_TREE_REARRANGE_SPR, rooted := 1,
                        SPR_prune_edge := Some n, SPR_regraft_edge := sibling s n\<rparr>))
            = Some (Ret (rc, root', rb') s')"
      by simp
    then show "rb' = Some (rb\<lparr>rearrange_type := PLLMOD_TREE_REARRANGE_SPR, rooted := 1,
                        SPR_prune_edge := Some n, SPR_regraft_edge := sibling s n\<rparr>)"
      by (rule spr_move_rollback)
  qed
qed

theorem spr_rollback_recorded_witness:
  "get_parent tree5 3 = Some 2
   \<and> pllmod_rtree_get_sister tree5 (Some 3) =
        Ret (PLL_SUCCESS, Some (LeftOf 2), Some (RightOf 2)) tree5
   \<and> pllmod_rtree_spr tree5 (Some 3) (Some 1) (Some (Some 0)) (Some rollback0) =
        spr_move tree5 (Some 3) (Some 1) (Some (Some 0))
          (Some \<lparr>rearrange_type = PLLMOD_TREE_REARRANGE_SPR, rooted = 1,
                 SPR_prune_edge = Some 3, SPR_regraft_edge = Some 4\<rparr>)"
proof -
  have h0: "get_parent tree5 3 = Some 2"
    by (simp add: tree5_def rnode_def get_parent_def)
  have h1: "pllmod_rtree_get_sister tree5 (Some 3) =
              Ret (PLL_SUCCESS, Some (LeftOf 2), Some (RightOf 2)) tree5"
    by (simp add: tree5_def rnode_def get_parent_def pllmod_rtree_get_sister_def)
  have sib: "sibling tree5 3 = Some 4"
    by (simp add: tree5_def rnode_def get_parent_def sibling_def)
  have "pllmod_rtree_spr tree5 (Some 3) (Some 1) (Some (Some 0)) (Some rollback0) =
          spr_move tree5 (Some 3) (Some 1) (Some (Some 0))
            (Some (rollback0\<lparr>rearrange_type := PLLMOD_TREE_REARRANGE_SPR, rooted := 1,
                     SPR_prune_edge := Some 3, SPR_regraft_edge := sibling tree5 3\<rparr>))"
    using spr_rollback_recorded [OF h0 h1, of "Some 1" "Some (Some 0)" rollback0] by blast
  then have "pllmod_rtree_spr tree5 (Some 3) (Some 1) (Some (Some 0)) (Some rollback0) =
          spr_move tree5 (Some 3) (Some 1) (Some (Some 0))
            (Some \<lparr>rearrange_type = PLLMOD_TREE_REARRANGE_SPR, rooted = 1,
                 SPR_prune_edge = Some 3, SPR_regraft_edge = Some 4\<rparr>)"
    by (simp add: sib rollback0_def)
  with h0 h1 show ?thesis by (intro conjI)
qed

text \<open>
  Claim C10. When the first lookup of spr has succeeded and the call returns
  \<^verbatim>\<open>PLL_FAILURE\<close> (so the failure comes from the prune or the regraft stage), the
  rollback record the caller provided has been overwritten: kind SPR, rooted flag 1, the
  prune edge, and the pruned node's sibling of the store before the call as regraft edge.
  The root handle is untouched, and the nodes are either those before the call (the prune
  failed) or those the successful prune left (the regraft failed): the record describes a
  move that was not, or only half, applied.
\<close>

theorem spr_failure_keeps_rollback:
  assumes "pllmod_rtree_get_sister s p_node = Ret (PLL_SUCCESS, self_ptr, sister_ptr) s1"
      and "pllmod_rtree_spr s p_node r_tree root (Some rb) =
             Some (Ret (PLL_FAILURE, root', rb') s')"
  shows "\<exists>n. p_node = Some n
           \<and> rb' = Some (rb\<lparr>rearrange_type := PLLMOD_TREE_REARRANGE_SPR, rooted := 1,
                             SPR_prune_edge := p_node, SPR_regraft_edge := sibling s n\<rparr>)
           \<and> root' = root
           \<and> (nodes s' = nodes s
               \<or> (\<exists>c s2. pllmod_rtree_prune s p_node = Ret (Some c) s2
                      \<and> nodes s' = nodes s2))"
proof -
  obtain n where n: "p_node = Some n"
    using assms(1) by (cases p_node) (simp_all add: pllmod_rtree_get_sister_def)
  have "get_parent s n \<noteq> None"
    using assms n
    by (auto simp: pllmod_rtree_spr_def pllmod_rtree_get_sister_def split: option.splits)
  then obtain p where p: "get_parent s n = Some p" by auto
  have "spr_move s (Some n) r_tree root
          (Some (rb\<lparr>rearrange_type := PLLMOD_TREE_REARRANGE_SPR, rooted := 1,
                    SPR_prune_edge := Some n, SPR_regraft_edge := sibling s n\<rparr>))
        = Some (Ret (PLL_FAILURE, root', rb') s')"
    using spr_unfold [OF assms(1)[unfolded n] p, of r_tree root rb] assms(2) n by simp
  from spr_move_failure [OF this] n show ?thesis by simp
qed

theorem spr_failure_keeps_rollback_witness:
  "\<exists>s'. pllmod_rtree_spr tree5 (Some 3) (Some 1) (Some (Some 0)) (Some rollback0) =
          Some (Ret (PLL_FAILURE, Some (Some 0),
                  Some \<lparr>rearrange_type = PLLMOD_TREE_REARRANGE_SPR, rooted = 1,
                        SPR_prune_edge = Some 3, SPR_regraft_edge = Some 4\<rparr>) s')
        \<and> (nodes s' = nodes tree5
            \<or> (\<exists>c s2. pllmod_rtree_prune tree5 (Some 3) = Ret (Some c) s2
                   \<and> nodes s' = nodes s2))"
proof -
  have h1: "pllmod_rtree_get_sister tree5 (Some 3) =
              Ret (PLL_SUCCESS, Some (LeftOf 2), Some (RightOf 2)) tree5"
    by (simp add: tree5_def rnode_def get_parent_def pllmod_rtree_get_sister_def)
  obtain root' rb' s' where h2:
    "pllmod_rtree_spr tree5 (Some 3) (Some 1) (Some (Some 0)) (Some rollback0) =
       Some (Ret (PLL_FAILURE, root', rb') s')"
    by (simp add: eval_defs)
  have sib: "sibling tree5 3 = Some 4"
    by (simp add: tree5_def rnode_def get_parent_def sibling_def)
  from spr_failure_keeps_rollback [OF h1 h2] h2 sib show ?thesis
    by (auto simp: rollback0_def)
qed

subsection \<open>Nodes at a distance\<close>

text \<open>
  The first round of the walk for the range 0..0, for any node \<open>c\<close> under a parent \<open>p\<close>
  with a successful lookup and room in the buffer: both bounds drop to -1, the parent is
  written at index 0 (line 299 tests the decremented \<^verbatim>\<open>min_distance\<close>), the descent
  into the sibling returns at once, and the walk goes on from the parent. No statement
  before or inside the loop writes the reference node itself.
\<close>

lemma nodes_at_distance_zero_first_round:
  assumes "get_parent s c = Some p" and "consistent_at s c" and "0 < length outbuffer"
  shows "pllmod_rtree_nodes_at_node_dist s (Some c) outbuffer k 0 0 =
           nodes_at_node_dist_up s (Some p) (outbuffer[0 := Some p]) 1 (- 1) (- 1)"
proof -
  have "nodes_at_node_dist_up s (Some c) outbuffer 0 0 0 =
          nodes_at_node_dist_up s (Some p) (outbuffer[0 := Some p]) 1 (- 1) (- 1)"
    using assms
    by (subst nodes_at_node_dist_up.simps)
       (auto simp: pllmod_rtree_get_sister_def consistent_at_def emit_def int_dec_def)
  then show ?thesis by (simp add: pllmod_rtree_nodes_at_node_dist_def)
qed

text \<open>
  Claim C4, at the five-node tree with the reference C = 3 and at the three-node tree with
  the reference 1 (every node well formed, the buffer large enough for all nodes): the
  call with the range 0..0 succeeds and writes the proper ancestors of the reference,
  nearest first, and never the reference. For C = 3 these are B = 2 and the root (count
  2); for leaf 1 of the three-node tree it is the root (count 1).
\<close>

theorem nodes_at_distance_zero_writes_ancestors:
  "list_all (well_formed_at tree5) [0, 1, 2, 3, 4]
   \<and> pllmod_rtree_nodes_at_node_dist tree5 (Some 3) [None, None, None, None, None] 0 0 0 =
       Some (Ret (PLL_SUCCESS, [Some 2, Some 0, None, None, None], 2) tree5)
   \<and> list_all (well_formed_at tree3) [0, 1, 2]
   \<and> pllmod_rtree_nodes_at_node_dist tree3 (Some 1) [None, None, None] 0 0 0 =
       Some (Ret (PLL_SUCCESS, [Some 0, None, None], 1) tree3)"
  by (simp add: eval_defs pllmod_rtree_nodes_at_node_dist_def nodes_at_node_dist_up.simps
      emit_def int_dec_def)

end
